theory Spec2Isabelle
  imports Complex_Main "HOL-Library.Log_Nat"
begin

section \<open>Conventions of the embedding\<close>

text \<open>
  The motor drive is written in Python. A Python \<open>float\<close> of the controllers and of the
  motor model is embedded as a \<open>real\<close>: the arithmetic is exact, rounding of doubles is not
  modelled. A class becomes a record of its attributes, a method becomes a function that
  takes the object and returns the updated object next to the returned value, and an
  exception becomes a value of \<open>py_error\<close>.
\<close>

datatype py_error =
    ValueError string
  | AttributeError string
  | ZeroDivisionError
  | OverflowError
  | StructError

text \<open>\<open>np.clip(x, lo, hi)\<close> is \<open>minimum(maximum(x, lo), hi)\<close>, also when \<open>lo > hi\<close>.\<close>

definition np_clip :: "real \<Rightarrow> real \<Rightarrow> real \<Rightarrow> real" where
  "np_clip x lo hi = min (max x lo) hi"

section \<open>PIDController (app/controllers/pid_controller.py)\<close>

record PIDController =
  kp :: real
  ki :: real
  kd :: real
  max_output :: real
  min_output :: real
  max_integral :: real
  derivative_filter_tau :: real
  integral :: real
  last_error :: real
  last_derivative :: real
  manual_output :: "real option"

definition PIDController_reset :: "PIDController \<Rightarrow> PIDController" where
  "PIDController_reset c =
     c\<lparr>integral := 0, last_error := 0, last_derivative := 0, manual_output := None\<rparr>"







text \<open>The parameters of the unit tests (tests/unit/test\_pid\_controller.py), after \<open>__init__\<close>.\<close>

definition test_pid :: PIDController where
  "test_pid =
     \<lparr>kp = 1, ki = 1/10, kd = 1/100, max_output = 100, min_output = -100,
      max_integral = 50, derivative_filter_tau = 1/100,
      integral = 0, last_error = 0, last_derivative = 0, manual_output = None\<rparr>"


section \<open>CurrentController (app/controllers/current\_controller.py)\<close>

text \<open>
  A dictionary of floats is an association list; \<open>d.get(k, default)\<close> is \<open>dict_get\<close>, and
  the truth value of a dictionary is that it is not empty. The attributes \<open>kp\<close>,
  \<open>ki\<close> and \<open>output\<close> of the current controller are the fields \<open>cc_kp\<close>, \<open>cc_ki\<close> and
  \<open>cc_output\<close>: the PID controller has attributes \<open>kp\<close> and \<open>ki\<close> of its own, and
  \<open>output\<close> is a keyword of Isabelle.
\<close>

type_synonym float_dict = "(string \<times> real) list"

definition dict_get :: "float_dict \<Rightarrow> string \<Rightarrow> real \<Rightarrow> real" where
  "dict_get d k dflt = (case map_of d k of None \<Rightarrow> dflt | Some v \<Rightarrow> v)"

record CurrentController =
  cc_kp :: real
  cc_ki :: real
  bandwidth :: real
  max_duty :: real
  min_duty :: real
  anti_windup_gain :: real
  use_anti_windup :: bool
  feedforward_gain :: real
  use_feedforward :: bool
  integral_term :: real
  prev_error :: real
  cc_output :: real
  is_saturated :: bool
  error_history :: "real list"
  max_history_length :: nat

definition get_limited_output :: "CurrentController \<Rightarrow> real \<Rightarrow> real" where
  "get_limited_output c out = np_clip out (min_duty c) (max_duty c)"

text \<open>Lines 85 to 88: the error is appended and the oldest entry dropped beyond the limit.\<close>

definition store_error :: "real \<Rightarrow> CurrentController \<Rightarrow> CurrentController" where
  "store_error error c =
     (let h = error_history c @ [error]
      in c\<lparr>error_history := (if length h > max_history_length c then tl h else h)\<rparr>)"

text \<open>Lines 93 to 100: the integral term, with the anti-windup feedback while saturated.\<close>

definition accumulate_integral :: "real \<Rightarrow> real \<Rightarrow> CurrentController \<Rightarrow> CurrentController" where
  "accumulate_integral error dt c =
     (if use_anti_windup c \<and> is_saturated c
      then
        let anti_windup_feedback =
              anti_windup_gain c * (cc_output c - get_limited_output c (cc_output c))
        in c\<lparr>integral_term := integral_term c + (cc_ki c * error - anti_windup_feedback) * dt\<rparr>
      else c\<lparr>integral_term := integral_term c + cc_ki c * error * dt\<rparr>)"

text \<open>
  Lines 102 to 122: the feedforward term. The division by \<open>dc_voltage\<close> raises
  ZeroDivisionError when the dictionary gives 0.
\<close>

definition feedforward_term ::
  "real \<Rightarrow> real \<Rightarrow> real \<Rightarrow> float_dict option \<Rightarrow> CurrentController \<Rightarrow> py_error + real" where
  "feedforward_term target_current actual_current dt motor_params c =
     (case motor_params of
        None \<Rightarrow> Inr 0
      | Some d \<Rightarrow>
          if use_feedforward c \<and> d \<noteq> [] then
            let resistance = dict_get d ''resistance'' (1/10);
                inductance = dict_get d ''inductance'' (1/10000);
                back_emf = dict_get d ''back_emf'' 0;
                dc_voltage = dict_get d ''dc_voltage'' 48;
                di_dt = (if dt > 0 then (target_current - actual_current) / dt else 0);
                voltage_ff = resistance * target_current + inductance * di_dt + back_emf
            in if dc_voltage = 0 then Inl ZeroDivisionError
               else Inr (feedforward_gain c * (voltage_ff / dc_voltage))
          else Inr 0)"

text \<open>
  \<open>update\<close>: the result is the returned duty cycle or the exception, next to the object
  as the call leaves it (an exception leaves the attributes written before it).
\<close>

definition CurrentController_update ::
  "real \<Rightarrow> real \<Rightarrow> real \<Rightarrow> float_dict option \<Rightarrow> CurrentController \<Rightarrow>
   (py_error + real) \<times> CurrentController" where
  "CurrentController_update target_current actual_current dt motor_params c0 =
     (let error = target_current - actual_current;
          c1 = store_error error c0;
          p_term = cc_kp c1 * error;
          c2 = accumulate_integral error dt c1
      in case feedforward_term target_current actual_current dt motor_params c2 of
           Inl e \<Rightarrow> (Inl e, c2)
         | Inr ff_term \<Rightarrow>
             let c3 = c2\<lparr>cc_output := p_term + integral_term c2 + ff_term\<rparr>;
                 limited_output = get_limited_output c3 (cc_output c3);
                 c4 = c3\<lparr>is_saturated := (limited_output \<noteq> cc_output c3)\<rparr>;
                 c5 = c4\<lparr>cc_output := limited_output\<rparr>;
                 c6 = c5\<lparr>prev_error := error\<rparr>
             in (Inr (cc_output c6), c6))"

definition CurrentController_reset :: "CurrentController \<Rightarrow> CurrentController" where
  "CurrentController_reset c =
     c\<lparr>integral_term := 0, prev_error := 0, cc_output := 0, is_saturated := False,
       error_history := []\<rparr>"

definition set_gains :: "real \<Rightarrow> real \<Rightarrow> CurrentController \<Rightarrow> CurrentController" where
  "set_gains new_kp new_ki c = c\<lparr>cc_kp := new_kp, cc_ki := new_ki\<rparr>"

text \<open>\<open>CurrentController({})\<close>: every parameter at the default of \<open>__init__\<close>.\<close>

definition default_current_controller :: CurrentController where
  "default_current_controller =
     \<lparr>cc_kp = 10, cc_ki = 1000, bandwidth = 1000, max_duty = 95/100, min_duty = 5/100,
      anti_windup_gain = 1, use_anti_windup = True, feedforward_gain = 0,
      use_feedforward = False, integral_term = 0, prev_error = 0, cc_output = 0,
      is_saturated = False, error_history = [], max_history_length = 100\<rparr>"

section \<open>CascadedSpeedCurrentController\<close>

record CascadedSpeedCurrentController =
  speed_controller :: PIDController
  current_controller :: CurrentController
  kt :: real
  control_mode :: string

definition set_motor_params ::
  "real \<Rightarrow> CascadedSpeedCurrentController \<Rightarrow> CascadedSpeedCurrentController" where
  "set_motor_params new_kt c = c\<lparr>kt := new_kt\<rparr>"

definition set_control_mode ::
  "string \<Rightarrow> CascadedSpeedCurrentController \<Rightarrow> CascadedSpeedCurrentController" where
  "set_control_mode mode c =
     (if mode \<in> set [''speed'', ''current'', ''torque''] then c\<lparr>control_mode := mode\<rparr> else c)"

definition CascadedSpeedCurrentController_reset ::
  "CascadedSpeedCurrentController \<Rightarrow> CascadedSpeedCurrentController" where
  "CascadedSpeedCurrentController_reset c =
     c\<lparr>speed_controller := PIDController_reset (speed_controller c),
       current_controller := CurrentController_reset (current_controller c)\<rparr>"

section \<open>RealTimeSimulator.update\_control\_parameters (app/simulation/real\_time\_simulator.py)\<close>

text \<open>
  The keyword arguments are a record of optional fields: \<open>None\<close> is a key that is absent
  from \<open>kwargs\<close>. The simulator is the record of the attributes the method reads or
  writes. A controller attribute is \<open>None\<close> until \<open>initialize\<close> has built the object; the
  attributes \<open>current_controller\<close> and \<open>control_mode\<close> of the simulator are the fields
  \<open>sim_current_controller\<close> and \<open>sim_control_mode\<close>, since the cascaded controller has
  attributes of the same names. The standalone controllers and those inside the cascaded
  controller are distinct objects (\<open>CascadedSpeedCurrentController.__init__\<close> builds its
  own).
\<close>

record control_kwargs =
  kw_target_speed_rpm :: "real option"
  kw_target_current_a :: "real option"
  kw_target_torque_nm :: "real option"
  kw_load_torque_percent :: "real option"
  kw_control_mode :: "string option"
  kw_use_cascaded_control :: "bool option"
  kw_manual_voltage :: "real option"
  kw_manual_duty_cycle :: "real option"
  kw_pid_params :: "float_dict option"
  kw_current_controller_params :: "float_dict option"

definition no_kwargs :: control_kwargs where
  "no_kwargs =
     \<lparr>kw_target_speed_rpm = None, kw_target_current_a = None, kw_target_torque_nm = None,
      kw_load_torque_percent = None, kw_control_mode = None, kw_use_cascaded_control = None,
      kw_manual_voltage = None, kw_manual_duty_cycle = None, kw_pid_params = None,
      kw_current_controller_params = None\<rparr>"

record RealTimeSimulator =
  pid_controller :: "PIDController option"
  sim_current_controller :: "CurrentController option"
  cascaded_controller :: "CascadedSpeedCurrentController option"
  target_speed_rpm :: real
  target_current_a :: real
  target_torque_nm :: real
  load_torque_percent :: real
  manual_voltage :: real
  manual_duty_cycle :: real
  sim_control_mode :: string
  use_cascaded_control :: bool

text \<open>\<open>if 'k' in kwargs: self.k = kwargs['k']\<close>.\<close>

definition assign :: "'a option \<Rightarrow> 'a \<Rightarrow> 'a" where
  "assign kw old = (case kw of None \<Rightarrow> old | Some v \<Rightarrow> v)"

text \<open>Lines 412 to 434: the eight plain fields.\<close>

definition update_plain_fields :: "control_kwargs \<Rightarrow> RealTimeSimulator \<Rightarrow> RealTimeSimulator" where
  "update_plain_fields kw s =
     s\<lparr>target_speed_rpm := assign (kw_target_speed_rpm kw) (target_speed_rpm s),
       target_current_a := assign (kw_target_current_a kw) (target_current_a s),
       target_torque_nm := assign (kw_target_torque_nm kw) (target_torque_nm s),
       load_torque_percent := assign (kw_load_torque_percent kw) (load_torque_percent s),
       sim_control_mode := assign (kw_control_mode kw) (sim_control_mode s),
       use_cascaded_control := assign (kw_use_cascaded_control kw) (use_cascaded_control s),
       manual_voltage := assign (kw_manual_voltage kw) (manual_voltage s),
       manual_duty_cycle := assign (kw_manual_duty_cycle kw) (manual_duty_cycle s)\<rparr>"

text \<open>
  Lines 451 to 462: the gains of the standalone current controller, then those of the
  current loop of the cascaded controller. The defaults of the second \<open>set_gains\<close> are
  read from the standalone controller after its own update.
\<close>

definition update_current_gains :: "control_kwargs \<Rightarrow> RealTimeSimulator \<Rightarrow> RealTimeSimulator" where
  "update_current_gains kw s =
     (case (kw_current_controller_params kw, sim_current_controller s) of
        (Some gains, Some cc) \<Rightarrow>
          let cc' = set_gains (dict_get gains ''kp'' (cc_kp cc))
                      (dict_get gains ''ki'' (cc_ki cc)) cc;
              s' = s\<lparr>sim_current_controller := Some cc'\<rparr>
          in (case cascaded_controller s' of
                None \<Rightarrow> s'
              | Some casc \<Rightarrow>
                  s'\<lparr>cascaded_controller := Some (casc\<lparr>current_controller :=
                        set_gains (dict_get gains ''kp'' (cc_kp cc'))
                          (dict_get gains ''ki'' (cc_ki cc')) (current_controller casc)\<rparr>)\<rparr>)
      | _ \<Rightarrow> s)"

text \<open>
  \<open>update_control_parameters\<close>. Line 438 calls \<open>self.pid_controller.set_parameters\<close>. The
  class \<open>PIDController\<close> (pid\_controller.py) defines \<open>__init__\<close>, \<open>reset\<close>, \<open>update\<close>,
  \<open>_calculate_filtered_derivative\<close>, \<open>set_manual_output\<close>, \<open>get_performance_metrics\<close>,
  \<open>_calculate_rise_time\<close>, \<open>_calculate_settling_time\<close> and \<open>_calculate_overshoot\<close>, and
  no \<open>set_parameters\<close>; no other module adds one. The attribute lookup therefore raises
  AttributeError, after the plain fields have been written and before the block of the
  current controller is reached.
\<close>

definition update_control_parameters ::
  "control_kwargs \<Rightarrow> RealTimeSimulator \<Rightarrow> (py_error + unit) \<times> RealTimeSimulator" where
  "update_control_parameters kw s =
     (let s1 = update_plain_fields kw s
      in if kw_pid_params kw \<noteq> None \<and> pid_controller s1 \<noteq> None
         then (Inl (AttributeError ''set_parameters''), s1)
         else (Inr (), update_current_gains kw s1))"

text \<open>
  The simulator as \<open>initialize\<close> leaves it: \<open>PIDController(DEFAULT_PID_PARAMS)\<close> of
  core/config.py, and the current controller of lines 94 to 104 with the gains of
  \<open>tune_for_motor\<close> (\<open>kp = L * 2 * pi * 1000\<close>, \<open>ki = R * 2 * pi * 1000\<close> for
  \<open>L = 0.0015\<close> and \<open>R = 0.08\<close>). The dictionary \<open>speed_controller_params\<close> of lines 110
  to 117 has no key \<open>max_output\<close>, so the constructor of the cascaded controller raises
  KeyError inside \<open>PIDController.__init__\<close> and \<open>cascaded_controller\<close> stays \<open>None\<close>.
\<close>

definition settings_pid :: PIDController where
  "settings_pid =
     \<lparr>kp = 1, ki = 1/10, kd = 1/100, max_output = 60, min_output = -60,
      max_integral = 50, derivative_filter_tau = 1/100,
      integral = 0, last_error = 0, last_derivative = 0, manual_output = None\<rparr>"

definition tuned_current_controller :: CurrentController where
  "tuned_current_controller =
     \<lparr>cc_kp = 15/10000 * (2 * pi * 1000), cc_ki = 8/100 * (2 * pi * 1000), bandwidth = 1000,
      max_duty = 95/100, min_duty = 5/100, anti_windup_gain = 1, use_anti_windup = True,
      feedforward_gain = 8/10, use_feedforward = True, integral_term = 0, prev_error = 0,
      cc_output = 0, is_saturated = False, error_history = [], max_history_length = 100\<rparr>"

definition initialized_simulator :: RealTimeSimulator where
  "initialized_simulator =
     \<lparr>pid_controller = Some settings_pid,
      sim_current_controller = Some tuned_current_controller,
      cascaded_controller = None,
      target_speed_rpm = 0, target_current_a = 0, target_torque_nm = 0,
      load_torque_percent = 0, manual_voltage = 0, manual_duty_cycle = 0,
      sim_control_mode = ''speed'', use_cascaded_control = True\<rparr>"

section \<open>PWMInverter and BLDCMotor (app/models)\<close>

text \<open>
  Where a divisor is zero, Python raises ZeroDivisionError (numpy scalars give \<open>inf\<close> or
  \<open>nan\<close> with a warning instead); the reals have no such values, so the model stops
  with ZeroDivisionError in both cases. A call that raises returns the error only.
\<close>

definition and_then :: "py_error + 'a \<Rightarrow> ('a \<Rightarrow> py_error + 'b) \<Rightarrow> py_error + 'b" where
  "and_then r f = (case r of Inl e \<Rightarrow> Inl e | Inr v \<Rightarrow> f v)"

definition py_div :: "real \<Rightarrow> real \<Rightarrow> py_error + real" where
  "py_div a b = (if b = 0 then Inl ZeroDivisionError else Inr (a / b))"

text \<open>Python's \<open>x % y\<close> on floats, for \<open>y \<noteq> 0\<close>: the remainder has the sign of \<open>y\<close>.\<close>

definition py_mod :: "real \<Rightarrow> real \<Rightarrow> real" where
  "py_mod x y = x - y * of_int \<lfloor>x / y\<rfloor>"

record PWMInverter =
  dc_bus_voltage :: real
  switching_frequency :: real
  dead_time :: real
  on_resistance :: real
  switching_loss_coeff :: real
  switching_period :: real
  inv_duty_cycle :: real
  output_voltage :: real
  conduction_losses :: real
  switching_losses :: real
  total_losses :: real

definition modulate :: "real \<Rightarrow> real \<Rightarrow> PWMInverter \<Rightarrow> py_error + (real \<times> PWMInverter)" where
  "modulate duty motor_current inv0 =
     (let inv1 = inv0\<lparr>inv_duty_cycle := np_clip duty 0 1\<rparr>
      in and_then (py_div (dead_time inv1) (switching_period inv1)) (\<lambda>dead_time_ratio.
           let effective_duty = max 0 (inv_duty_cycle inv1 - dead_time_ratio);
               ideal_voltage = dc_bus_voltage inv1 * effective_duty;
               inv2 = inv1\<lparr>conduction_losses := 2 * motor_current ^ 2 * on_resistance inv1\<rparr>;
               inv3 = inv2\<lparr>switching_losses :=
                        switching_loss_coeff inv2 * \<bar>motor_current\<bar> * dc_bus_voltage inv2 *
                        switching_frequency inv2 / 1000\<rparr>;
               inv4 = inv3\<lparr>total_losses := conduction_losses inv3 + switching_losses inv3\<rparr>;
               voltage_drop = \<bar>motor_current\<bar> * on_resistance inv4 * 2;
               inv5 = inv4\<lparr>output_voltage := ideal_voltage - voltage_drop\<rparr>
           in Inr (output_voltage inv5, inv5)))"

definition get_efficiency :: "PWMInverter \<Rightarrow> py_error + real" where
  "get_efficiency inverter =
     (if output_voltage inverter \<le> 0 \<or> inv_duty_cycle inverter \<le> 0 then Inr 0
      else and_then (py_div (output_voltage inverter) (dc_bus_voltage inverter)) (\<lambda>ratio.
             let input_power = dc_bus_voltage inverter * ratio;
                 output_power = input_power - total_losses inverter
             in if input_power > 0
                then Inr (np_clip ((output_power / input_power) * 100) 0 100)
                else Inr 0))"

text \<open>The entries of the dictionary \<open>params\<close> that \<open>step\<close> reads.\<close>

record motor_params =
  p_resistance :: real
  p_inductance :: real
  p_kt :: real
  p_ke :: real
  p_inertia :: real
  p_friction :: real
  p_rated_current :: real
  p_max_speed :: real
  p_max_torque :: real

record BLDCMotor =
  params :: motor_params
  use_pwm :: bool
  pwm_inverter :: "PWMInverter option"
  speed :: real
  position :: real
  current :: real
  voltage :: real
  torque :: real
  temperature :: real
  duty_cycle :: real
  current_filtered :: real
  power_loss :: real
  thermal_resistance :: real
  max_current_seen :: real

definition calculate_back_emf :: "BLDCMotor \<Rightarrow> real" where
  "calculate_back_emf m = p_ke (params m) * speed m"

definition get_hot_resistance :: "BLDCMotor \<Rightarrow> real" where
  "get_hot_resistance m =
     (let alpha = 393/100000
      in p_resistance (params m) * (1 + alpha * (temperature m - 20)))"

definition update_electrical_dynamics ::
  "real \<Rightarrow> real \<Rightarrow> real \<Rightarrow> BLDCMotor \<Rightarrow> py_error + BLDCMotor" where
  "update_electrical_dynamics applied_voltage back_emf dt m0 =
     (let resistance = get_hot_resistance m0;
          inductance = p_inductance (params m0);
          voltage_drop = applied_voltage - back_emf
      in and_then (py_div (voltage_drop - resistance * current m0) inductance) (\<lambda>di_dt.
           let m1 = m0\<lparr>current := current m0 + di_dt * dt\<rparr>;
               max_current = p_rated_current (params m1) * (15/10);
               m2 = m1\<lparr>current := np_clip (current m1) (- max_current) max_current\<rparr>;
               m3 = m2\<lparr>max_current_seen := max (max_current_seen m2) \<bar>current m2\<bar>\<rparr>;
               filter_tau = 1/1000
           in and_then (py_div dt (dt + filter_tau)) (\<lambda>alpha_filter.
                Inr (m3\<lparr>current_filtered :=
                       current_filtered m3 + alpha_filter * (current m3 - current_filtered m3)\<rparr>))))"

definition update_torque :: "BLDCMotor \<Rightarrow> BLDCMotor" where
  "update_torque m0 =
     (let m1 = m0\<lparr>torque := p_kt (params m0) * current m0\<rparr>;
          max_torque = p_max_torque (params m1)
      in m1\<lparr>torque := np_clip (torque m1) (- max_torque) max_torque\<rparr>)"

text \<open>
  \<open>_update_mechanical_dynamics\<close>, statement by statement: lines 208 and 209 update the
  speed and then the position, line 213 limits the speed, line 216 wraps the position.
\<close>

definition update_mechanical_dynamics ::
  "real \<Rightarrow> real \<Rightarrow> BLDCMotor \<Rightarrow> py_error + BLDCMotor" where
  "update_mechanical_dynamics load_torque dt m0 =
     (let inertia = p_inertia (params m0);
          friction_coeff = p_friction (params m0);
          friction_torque = friction_coeff * speed m0;
          net_torque = torque m0 - load_torque - friction_torque
      in and_then (py_div net_torque inertia) (\<lambda>angular_acceleration.
           let m1 = m0\<lparr>speed := speed m0 + angular_acceleration * dt\<rparr>;
               m2 = m1\<lparr>position := position m1 + speed m1 * dt\<rparr>;
               max_speed_rad_s = p_max_speed (params m2) * pi / 30;
               m3 = m2\<lparr>speed := np_clip (speed m2) (- max_speed_rad_s) max_speed_rad_s\<rparr>
           in Inr (m3\<lparr>position := py_mod (position m3) (2 * pi)\<rparr>)))"

definition update_thermal_dynamics :: "real \<Rightarrow> BLDCMotor \<Rightarrow> py_error + BLDCMotor" where
  "update_thermal_dynamics dt m0 =
     (let resistance = get_hot_resistance m0;
          i2r_loss = resistance * current m0 ^ 2
      in and_then (py_div \<bar>speed m0\<bar> (p_max_speed (params m0) * pi / 30)) (\<lambda>speed_pu.
           let core_losses = 5 * speed_pu ^ 2;
               total_loss = i2r_loss + core_losses;
               m1 = m0\<lparr>power_loss := total_loss\<rparr>;
               ambient_temp = 25;
               thermal_capacity = 100
           in and_then (py_div (temperature m1 - ambient_temp) (thermal_resistance m1)) (\<lambda>leak.
                let dT_dt = (total_loss - leak) / thermal_capacity;
                    m2 = m1\<lparr>temperature := temperature m1 + dT_dt * dt\<rparr>;
                    m3 = m2\<lparr>temperature := max (temperature m2) ambient_temp\<rparr>
                in Inr (m3\<lparr>temperature := min (temperature m3) 150\<rparr>))))"

text \<open>The dictionary returned by \<open>step\<close>; the last four entries exist in PWM mode only.\<close>

record motor_outputs =
  speed_rpm :: real
  torque_nm :: real
  current_a :: real
  voltage_v :: real
  power_w :: real
  efficiency :: real
  position_rad :: real
  temperature_c :: real
  out_duty_cycle :: "real option"
  out_dc_bus_voltage :: "real option"
  out_switching_frequency :: "real option"
  inverter_losses :: "real option"

definition motor_efficiency :: "BLDCMotor \<Rightarrow> real" where
  "motor_efficiency m =
     (let mechanical_power = torque m * speed m;
          electrical_power = voltage m * current m;
          eff = (if \<bar>electrical_power\<bar> > 1/10
                 then (if electrical_power > 0 then \<bar>mechanical_power\<bar> / electrical_power
                       else (if mechanical_power \<noteq> 0
                             then electrical_power / \<bar>mechanical_power\<bar> else 0))
                 else 0)
      in np_clip eff 0 (98/100))"

definition calculate_state_outputs :: "BLDCMotor \<Rightarrow> py_error + motor_outputs" where
  "calculate_state_outputs m =
     and_then
       (case (if use_pwm m then pwm_inverter m else None) of
          None \<Rightarrow> Inr (motor_efficiency m)
        | Some inverter \<Rightarrow>
            and_then (get_efficiency inverter) (\<lambda>e. Inr (motor_efficiency m * (e / 100))))
       (\<lambda>eff.
          Inr \<lparr>speed_rpm = speed m * 30 / pi, torque_nm = torque m, current_a = current m,
               voltage_v = voltage m, power_w = torque m * speed m, efficiency = eff,
               position_rad = position m, temperature_c = temperature m,
               out_duty_cycle = (if use_pwm m then Some (duty_cycle m) else None),
               out_dc_bus_voltage =
                 (if use_pwm m then map_option dc_bus_voltage (pwm_inverter m) else None),
               out_switching_frequency =
                 (if use_pwm m then map_option switching_frequency (pwm_inverter m) else None),
               inverter_losses =
                 (if use_pwm m then map_option total_losses (pwm_inverter m) else None)\<rparr>)"

text \<open>Lines 119 to 127 of \<open>step\<close>: the control input becomes the applied voltage.\<close>

definition apply_control_input :: "real \<Rightarrow> BLDCMotor \<Rightarrow> py_error + BLDCMotor" where
  "apply_control_input control_input m =
     (case (if use_pwm m then pwm_inverter m else None) of
        Some inverter \<Rightarrow>
          let m1 = m\<lparr>duty_cycle := np_clip control_input 0 1\<rparr>
          in and_then (modulate (duty_cycle m1) (current m1) inverter) (\<lambda>(v, inverter').
               Inr (m1\<lparr>pwm_inverter := Some inverter', voltage := v\<rparr>))
      | None \<Rightarrow> Inr (m\<lparr>voltage := control_input, duty_cycle := 0\<rparr>))"

definition BLDCMotor_step ::
  "real \<Rightarrow> real \<Rightarrow> real \<Rightarrow> BLDCMotor \<Rightarrow> py_error + (motor_outputs \<times> BLDCMotor)" where
  "BLDCMotor_step control_input load_torque dt m =
     and_then (apply_control_input control_input m) (\<lambda>m1.
       let back_emf = calculate_back_emf m1
       in and_then (update_electrical_dynamics (voltage m1) back_emf dt m1) (\<lambda>m2.
            let m3 = update_torque m2
            in and_then (update_mechanical_dynamics load_torque dt m3) (\<lambda>m4.
                 and_then (update_thermal_dynamics dt m4) (\<lambda>m5.
                   and_then (calculate_state_outputs m5) (\<lambda>outs. Inr (outs, m5))))))"

text \<open>A sequence of \<open>step\<close> calls \<open>(control_input, load_torque, dt)\<close>; the first exception ends it.\<close>

fun BLDCMotor_steps :: "(real \<times> real \<times> real) list \<Rightarrow> BLDCMotor \<Rightarrow> py_error + BLDCMotor" where
  "BLDCMotor_steps [] m = Inr m"
| "BLDCMotor_steps ((control_input, load_torque, dt) # calls) m =
     and_then (BLDCMotor_step control_input load_torque dt m) (\<lambda>(outs, m').
       BLDCMotor_steps calls m')"

text \<open>
  The parameters under which no division of \<open>step\<close> has a zero divisor and the limits are
  limits: nonzero inductance, inertia, maximum speed and thermal resistance (2 after
  \<open>__init__\<close>), a rated current and a maximum torque that are not negative, and an
  inverter with a nonzero switching period and bus voltage.
\<close>

definition inverter_ok :: "PWMInverter option \<Rightarrow> bool" where
  "inverter_ok i =
     (case i of None \<Rightarrow> True
      | Some inverter \<Rightarrow> switching_period inverter \<noteq> 0 \<and> dc_bus_voltage inverter \<noteq> 0)"

definition motor_ok :: "BLDCMotor \<Rightarrow> bool" where
  "motor_ok m \<longleftrightarrow>
     p_inductance (params m) \<noteq> 0 \<and> p_inertia (params m) \<noteq> 0 \<and>
     p_max_speed (params m) \<noteq> 0 \<and> thermal_resistance m \<noteq> 0 \<and>
     0 \<le> p_rated_current (params m) \<and> 0 \<le> p_max_torque (params m) \<and>
     inverter_ok (pwm_inverter m)"

text \<open>The invariant of the motor state of claim C2.\<close>

definition state_invariant :: "BLDCMotor \<Rightarrow> bool" where
  "state_invariant m \<longleftrightarrow>
     \<bar>current m\<bar> \<le> 15/10 * p_rated_current (params m) \<and>
     \<bar>torque m\<bar> \<le> p_max_torque (params m) \<and>
     25 \<le> temperature m \<and> temperature m \<le> 150 \<and>
     0 \<le> position m \<and> position m < 2 * pi"

text \<open>
  \<open>BLDCMotor(DEFAULT_MOTOR_PARAMS, use_pwm=False)\<close> and \<open>BLDCMotor(DEFAULT_MOTOR_PARAMS)\<close>
  after \<open>__init__\<close> (core/config.py; the inverter has the defaults of lines 62 to 68).
\<close>

definition default_params :: motor_params where
  "default_params =
     \<lparr>p_resistance = 8/100, p_inductance = 15/10000, p_kt = 169/1000, p_ke = 169/1000,
      p_inertia = 1/1000, p_friction = 1/1000, p_rated_current = 45, p_max_speed = 6000,
      p_max_torque = 15\<rparr>"

definition direct_motor :: BLDCMotor where
  "direct_motor =
     \<lparr>params = default_params, use_pwm = False, pwm_inverter = None,
      speed = 0, position = 0, current = 0, voltage = 0, torque = 0, temperature = 25,
      duty_cycle = 0, current_filtered = 0, power_loss = 0, thermal_resistance = 2,
      max_current_seen = 0\<rparr>"

definition default_inverter :: PWMInverter where
  "default_inverter =
     \<lparr>dc_bus_voltage = 48, switching_frequency = 20000, dead_time = 2 / 1000000,
      on_resistance = 1/100, switching_loss_coeff = 1/1000, switching_period = 1 / 20000,
      inv_duty_cycle = 0, output_voltage = 0, conduction_losses = 0, switching_losses = 0,
      total_losses = 0\<rparr>"

definition pwm_motor :: BLDCMotor where
  "pwm_motor = direct_motor\<lparr>use_pwm := True, pwm_inverter := Some default_inverter\<rparr>"

text \<open>
  A motor close to a speed limit of 30 RPM (\<open>pi\<close> rad/s): 3 rad/s, with a torque of 2 Nm
  that takes it to 4.997 rad/s within one millisecond.
\<close>

definition fast_motor :: BLDCMotor where
  "fast_motor =
     direct_motor\<lparr>params := default_params\<lparr>p_max_speed := 30\<rparr>, speed := 3, torque := 2\<rparr>"

section \<open>BinaryEncoder (app/websocket/binary\_protocol.py)\<close>

text \<open>
  A byte is a natural number below 256 and \<open>bytes\<close> is a list of them. The floats of this
  module are embedded with their representation, since the claims are about the rounding
  of \<open>struct.pack('>f', ...)\<close>: a finite double is \<open>Finite s m e\<close> with the value
  \<open>(-1)^s * m * 2^e\<close> (every double has this form, with \<open>m < 2^53\<close>), next to the
  infinities and one NaN.
\<close>

type_synonym byte = nat

datatype pyfloat = Finite bool nat int | Infinity bool | NaN

fun is_finite :: "pyfloat \<Rightarrow> bool" where
  "is_finite (Finite s m e) = True"
| "is_finite _ = False"

text \<open>The value of a finite float (0 for the others, which have none).\<close>

fun fval :: "pyfloat \<Rightarrow> real" where
  "fval (Finite s m e) = (if s then - 1 else 1) * real m * 2 powi e"
| "fval _ = 0"

text \<open>
  Round to nearest, ties to even, onto the numbers \<open>M * 2^q\<close> with \<open>M < 2^p\<close> and
  \<open>q \<ge> qmin\<close>: the quantum exponent \<open>q\<close> is that of the binade of \<open>m * 2^e\<close>, or \<open>qmin\<close> for a
  subnormal result. A carry gives \<open>M = 2^p\<close>, the first number of the next binade.
  Binary32 is \<open>p = 24\<close>, \<open>qmin = -149\<close>; binary64 is \<open>p = 53\<close>, \<open>qmin = -1074\<close>.
\<close>

definition round_to_format :: "nat \<Rightarrow> int \<Rightarrow> nat \<Rightarrow> int \<Rightarrow> nat \<times> int" where
  "round_to_format p qmin m e =
     (if m = 0 then (0, qmin)
      else
        let q = max (int (floorlog 2 m) + e - int p) qmin
        in if q \<le> e then (m * 2 ^ nat (e - q), q)
           else
             let sh = nat (q - e);
                 quotient = m div 2 ^ sh;
                 remainder = m mod 2 ^ sh;
                 half = 2 ^ (sh - 1)
             in (if remainder > half \<or> (remainder = half \<and> odd quotient)
                 then quotient + 1 else quotient, q))"

text \<open>Big-endian integers of \<open>struct\<close>: \<open>be_bytes k n\<close> are the \<open>k\<close> low bytes of \<open>n\<close>.\<close>

fun be_bytes :: "nat \<Rightarrow> nat \<Rightarrow> byte list" where
  "be_bytes 0 n = []"
| "be_bytes (Suc k) n = be_bytes k (n div 256) @ [n mod 256]"

definition be_value :: "byte list \<Rightarrow> nat" where
  "be_value bs = foldl (\<lambda>acc b. acc * 256 + b) 0 bs"

text \<open>
  \<open>struct.pack('>f', x)\<close>: the binary32 nearest to the double, as sign bit, 8 exponent
  bits and 23 fraction bits; the magnitude bits of \<open>M * 2^q\<close> are \<open>(q + 149) * 2^23 + M\<close>. A
  finite double that rounds beyond the largest binary32 raises OverflowError.
\<close>

definition float32_bits :: "pyfloat \<Rightarrow> py_error + nat" where
  "float32_bits x =
     (case x of
        NaN \<Rightarrow> Inr 2143289344
      | Infinity s \<Rightarrow> Inr ((if s then 2147483648 else 0) + 2139095040)
      | Finite s m e \<Rightarrow>
          (case round_to_format 24 (- 149) m e of
             (M, q) \<Rightarrow>
               let magnitude = nat (q + 149) * 8388608 + M
               in if magnitude \<ge> 2139095040 then Inl OverflowError
                  else Inr ((if s then 2147483648 else 0) + magnitude)))"

definition pack_f :: "pyfloat \<Rightarrow> py_error + byte list" where
  "pack_f x = and_then (float32_bits x) (\<lambda>bits. Inr (be_bytes 4 bits))"

text \<open>\<open>struct.unpack('>f', b)\<close> of four bytes: every binary32 is a double.\<close>

definition unpack_f :: "byte list \<Rightarrow> pyfloat" where
  "unpack_f bs =
     (let bits = be_value bs;
          s = (bits div 2147483648 = 1);
          exponent = (bits div 8388608) mod 256;
          fraction = bits mod 8388608
      in if exponent = 255 then (if fraction = 0 then Infinity s else NaN)
         else if exponent = 0 then Finite s fraction (- 149)
         else Finite s (8388608 + fraction) (int exponent - 150))"

text \<open>The loop of lines 66 and 67: the first float that overflows ends it.\<close>

fun pack_floats :: "pyfloat list \<Rightarrow> py_error + byte list" where
  "pack_floats [] = Inr []"
| "pack_floats (x # xs) =
     and_then (pack_f x) (\<lambda>b. and_then (pack_floats xs) (\<lambda>bs. Inr (b @ bs)))"

text \<open>\<open>struct.unpack('>8f', payload)\<close> and \<open>'>3f'\<close>: consecutive groups of four bytes.\<close>

fun unpack_floats :: "nat \<Rightarrow> byte list \<Rightarrow> pyfloat list" where
  "unpack_floats 0 bs = []"
| "unpack_floats (Suc k) bs = unpack_f (take 4 bs) # unpack_floats k (drop 4 bs)"

text \<open>
  \<open>struct.pack('>HHI', message_type, payload_length, timestamp_ms)\<close> raises
  \<open>struct.error\<close> for a field outside its range.
\<close>

definition pack_HHI :: "nat \<Rightarrow> nat \<Rightarrow> nat \<Rightarrow> py_error + byte list" where
  "pack_HHI message_type payload_length timestamp_ms =
     (if message_type < 65536 \<and> payload_length < 65536 \<and> timestamp_ms < 4294967296
      then Inr (be_bytes 2 message_type @ be_bytes 2 payload_length @ be_bytes 4 timestamp_ms)
      else Inl StructError)"

definition unpack_HHI :: "byte list \<Rightarrow> nat \<times> nat \<times> nat" where
  "unpack_HHI header =
     (be_value (take 2 header), be_value (take 2 (drop 2 header)),
      be_value (take 4 (drop 4 header)))"

text \<open>
  Line 80, \<open>int(timestamp * 1000) & 0xFFFFFFFF\<close>: the product is rounded to a double (to
  infinity beyond the largest double), \<open>int\<close> truncates towards zero and raises on an
  infinity or a NaN, and the mask keeps the low 32 bits of the two's complement.
\<close>

definition times_1000 :: "pyfloat \<Rightarrow> pyfloat" where
  "times_1000 x =
     (case x of
        Finite s m e \<Rightarrow>
          (case round_to_format 53 (- 1074) (m * 1000) e of
             (M, q) \<Rightarrow> if real M * 2 powi q \<ge> 2 powi 1024 then Infinity s else Finite s M q)
      | _ \<Rightarrow> x)"

definition py_int :: "pyfloat \<Rightarrow> py_error + int" where
  "py_int x =
     (case x of
        Finite s m e \<Rightarrow>
          let magnitude = (if e \<ge> 0 then int m * 2 ^ nat e else int m div 2 ^ nat (- e))
          in Inr (if s then - magnitude else magnitude)
      | Infinity s \<Rightarrow> Inl OverflowError
      | NaN \<Rightarrow> Inl (ValueError ''cannot convert float NaN to integer''))"

definition timestamp_ms_of :: "pyfloat \<Rightarrow> py_error + nat" where
  "timestamp_ms_of timestamp =
     and_then (py_int (times_1000 timestamp)) (\<lambda>i. Inr (nat (i mod 4294967296)))"

text \<open>
  The dictionary of a data point is an association list; \<open>data.get(k, default)\<close> is
  \<open>py_get\<close>. \<open>zlib\<close> is outside the repository: its two functions are parameters of the
  encoder, and \<open>zlib_decompress\<close> gives \<open>None\<close> where \<open>zlib.decompress\<close> raises
  \<open>zlib.error\<close>. The clock \<open>time.time()\<close> is the parameter \<open>now\<close>.
\<close>

type_synonym pydict = "(string \<times> pyfloat) list"

definition py_get :: "pydict \<Rightarrow> string \<Rightarrow> pyfloat \<Rightarrow> pyfloat" where
  "py_get d k dflt = (case map_of d k of None \<Rightarrow> dflt | Some v \<Rightarrow> v)"

record zlib_module =
  zlib_compress :: "byte list \<Rightarrow> byte list"
  zlib_decompress :: "byte list \<Rightarrow> byte list option"

definition field_names :: "string list" where
  "field_names =
     [''timestamp'', ''speed_rpm'', ''torque_nm'', ''current_a'', ''voltage_v'',
      ''efficiency'', ''power_w'', ''temperature_c'']"

text \<open>Lines 54 to 63: the eight values in their fixed order, with the defaults.\<close>

definition simulation_fields :: "pyfloat \<Rightarrow> pydict \<Rightarrow> pyfloat list" where
  "simulation_fields now data =
     [py_get data ''timestamp'' now,
      py_get data ''speed_rpm'' (Finite False 0 0),
      py_get data ''torque_nm'' (Finite False 0 0),
      py_get data ''current_a'' (Finite False 0 0),
      py_get data ''voltage_v'' (Finite False 0 0),
      py_get data ''efficiency'' (Finite False 0 0),
      py_get data ''power_w'' (Finite False 0 0),
      py_get data ''temperature_c'' (Finite False 25 0)]"

definition encode_simulation_data ::
  "zlib_module \<Rightarrow> nat \<Rightarrow> pyfloat \<Rightarrow> pydict \<Rightarrow> bool \<Rightarrow> py_error + byte list" where
  "encode_simulation_data zlib compression_threshold now data compress =
     and_then (pack_floats (simulation_fields now data)) (\<lambda>packed.
       let payload = (if compress \<and> length packed > compression_threshold
                      then zlib_compress zlib packed else packed);
           message_type = 1;
           payload_length = length payload
       in and_then (timestamp_ms_of (py_get data ''timestamp'' now)) (\<lambda>timestamp_ms.
            and_then (pack_HHI message_type payload_length timestamp_ms) (\<lambda>header.
              Inr (header @ payload))))"

text \<open>
  Lines 107 to 120: the payload named by the header, and the payload after the attempt
  to decompress one that starts with the byte \<open>0x78\<close>.
\<close>

definition header_payload :: "byte list \<Rightarrow> byte list" where
  "header_payload binary_data =
     (case unpack_HHI (take 8 binary_data) of
        (message_type, payload_length, timestamp_ms) \<Rightarrow> take payload_length (drop 8 binary_data))"

definition try_decompress :: "zlib_module \<Rightarrow> byte list \<Rightarrow> byte list" where
  "try_decompress zlib payload =
     (if payload \<noteq> [] \<and> hd payload = 120
      then (case zlib_decompress zlib payload of None \<Rightarrow> payload | Some p \<Rightarrow> p)
      else payload)"

definition decode_simulation_data :: "zlib_module \<Rightarrow> byte list \<Rightarrow> py_error + pydict" where
  "decode_simulation_data zlib binary_data =
     (if length binary_data < 8 then Inl (ValueError ''Binary data too short for header'')
      else
        case unpack_HHI (take 8 binary_data) of
          (message_type, payload_length, timestamp_ms) \<Rightarrow>
            if message_type \<noteq> 1 then Inl (ValueError ''Expected simulation data message'')
            else
              let payload = header_payload binary_data
              in if length payload \<noteq> payload_length
                 then Inl (ValueError ''Payload length mismatch'')
                 else
                   let payload' = try_decompress zlib payload;
                       expected_size = 8 * 4
                   in if length payload' \<noteq> expected_size
                      then Inl (ValueError ''Unexpected payload size'')
                      else Inr (zip field_names (unpack_floats 8 payload')))"

text \<open>
  \<open>decode_control_message\<close>. The entry \<open>timestamp\<close> of the result is the quotient
  \<open>timestamp_ms / 1000.0\<close>, here before its rounding to a double.
\<close>

record control_message =
  msg_target_speed_rpm :: pyfloat
  msg_load_torque_percent :: pyfloat
  msg_enable_pid :: bool
  msg_timestamp :: real

fun greater_than_half :: "pyfloat \<Rightarrow> bool" where
  "greater_than_half (Finite s m e) = (fval (Finite s m e) > 1/2)"
| "greater_than_half (Infinity s) = (\<not> s)"
| "greater_than_half NaN = False"

definition decode_control_message :: "byte list \<Rightarrow> py_error + control_message" where
  "decode_control_message binary_data =
     (if length binary_data < 8 then Inl (ValueError ''Binary data too short for header'')
      else
        case unpack_HHI (take 8 binary_data) of
          (message_type, payload_length, timestamp_ms) \<Rightarrow>
            if message_type \<noteq> 2 then Inl (ValueError ''Expected control message'')
            else
              let payload = header_payload binary_data
              in if length payload \<noteq> 12
                 then Inl (ValueError ''Invalid control message payload size'')
                 else
                   (case unpack_floats 3 payload of
                      [target_speed, load_torque, enable_pid] \<Rightarrow>
                        Inr \<lparr>msg_target_speed_rpm = target_speed,
                             msg_load_torque_percent = load_torque,
                             msg_enable_pid = greater_than_half enable_pid,
                             msg_timestamp = real timestamp_ms / 1000\<rparr>
                    | _ \<Rightarrow> Inl StructError))"

text \<open>A \<open>zlib\<close> for the examples: it compresses nothing and recognises no stream.\<close>

definition no_zlib :: zlib_module where
  "no_zlib = \<lparr>zlib_compress = (\<lambda>bs. bs), zlib_decompress = (\<lambda>bs. None)\<rparr>"

section \<open>Properties of the PID controller\<close>

lemma np_clip_abs: "0 \<le> m \<Longrightarrow> \<bar>np_clip x (- m) m\<bar> \<le> m"
  by (auto simp: np_clip_def min_def max_def)


lemma np_clip_inside: "\<bar>x\<bar> \<le> m \<Longrightarrow> np_clip x (- m) m = x"
  by (auto simp: np_clip_def min_def max_def)























section \<open>Properties of the current controller and of the cascade\<close>

lemma get_limited_output_idem:
  "get_limited_output c (get_limited_output c x) = get_limited_output c x"
  by (auto simp: get_limited_output_def np_clip_def min_def max_def)

text \<open>
  Every successful \<open>update\<close> stores the limited output, so the stored output is a fixed
  point of the limiter: the anti-windup feedback of the next call, computed from the
  stored output, is zero.
\<close>

lemma update_output_limited:
  assumes "CurrentController_update t a dt mp c = (Inr out, c')"
  shows "get_limited_output c' (cc_output c') = cc_output c'"
proof -
  define c2 where "c2 = accumulate_integral (t - a) dt (store_error (t - a) c)"
  obtain ff where ff: "feedforward_term t a dt mp c2 = Inr ff"
    using assms unfolding CurrentController_update_def c2_def Let_def
    by (cases "feedforward_term t a dt mp (accumulate_integral (t - a) dt (store_error (t - a) c))")
      simp_all
  define x where "x = cc_kp (store_error (t - a) c) * (t - a) + integral_term c2 + ff"
  have "cc_output c' = get_limited_output c2 x \<and> min_duty c' = min_duty c2 \<and>
      max_duty c' = max_duty c2"
    using assms ff unfolding CurrentController_update_def Let_def c2_def[symmetric]
    by (auto simp: get_limited_output_def x_def)
  then show ?thesis
    using get_limited_output_idem[of c2 x] by (simp add: get_limited_output_def)
qed

lemma accumulate_integral_after_update:
  assumes "CurrentController_update t a dt mp c = (Inr out, c')"
  shows "integral_term (accumulate_integral e dt' c') = integral_term c' + cc_ki c' * e * dt'"
  using update_output_limited[OF assms] by (simp add: accumulate_integral_def Let_def)

lemma default_first_update:
  "CurrentController_update 10 0 (1/1000) None default_current_controller =
     (Inr (95/100),
      default_current_controller\<lparr>integral_term := 10, prev_error := 10, cc_output := 95/100,
        is_saturated := True, error_history := [10]\<rparr>)"
  by code_simp

lemma default_second_update:
  "CurrentController_update 10 0 (1/1000) None
     (default_current_controller\<lparr>integral_term := 10, prev_error := 10, cc_output := 95/100,
        is_saturated := True, error_history := [10]\<rparr>) =
     (Inr (95/100),
      default_current_controller\<lparr>integral_term := 20, prev_error := 10, cc_output := 95/100,
        is_saturated := True, error_history := [10, 10]\<rparr>)"
  by code_simp

text \<open>
  Claim C5, at the failing input. \<open>CurrentController({})\<close> is driven twice with target 10 A,
  measured 0 A and \<open>dt = 0.001\<close>. The first call computes the pre-limit output
  \<open>100 + 10 = 110\<close>, far above \<open>max_duty = 0.95\<close>, and leaves the controller saturated with
  anti-windup enabled. In the second call the anti-windup feedback
  \<open>anti_windup_gain * (output - get_limited_output(output))\<close> is zero, because \<open>output\<close>
  holds the already limited value, and the integral term grows by the full
  \<open>ki * error * dt = 10\<close>, exactly as in the unsaturated branch.
\<close>

theorem current_anti_windup_inactive:
  "(let c1 = snd (CurrentController_update 10 0 (1/1000) None default_current_controller);
        c2 = snd (CurrentController_update 10 0 (1/1000) None c1)
    in use_anti_windup c1 \<and> is_saturated c1 \<and> integral_term c1 = 10 \<and>
       anti_windup_gain c1 * (cc_output c1 - get_limited_output c1 (cc_output c1)) = 0 \<and>
       integral_term c2 = integral_term c1 + cc_ki c1 * (10 - 0) * (1/1000))"
  unfolding Let_def default_first_update snd_conv default_second_update
  by (simp add: default_current_controller_def get_limited_output_def np_clip_def)

text \<open>
  Claim C10. For every string other than \<open>speed\<close>, \<open>current\<close> and \<open>torque\<close>,
  \<open>set_control_mode\<close> returns the controller as it was: the control mode and every other
  attribute (both inner controllers and \<open>kt\<close>) are unchanged, and the call has no error
  branch.
\<close>

theorem set_control_mode_invalid:
  "mode \<notin> set [''speed'', ''current'', ''torque''] \<Longrightarrow> set_control_mode mode c = c"
  by (simp add: set_control_mode_def)

theorem set_control_mode_invalid_witness:
  "''voltage'' \<notin> set [''speed'', ''current'', ''torque''] \<and>
   set_control_mode ''voltage''
     \<lparr>speed_controller = test_pid, current_controller = default_current_controller,
      kt = 1, control_mode = ''speed''\<rparr> =
     \<lparr>speed_controller = test_pid, current_controller = default_current_controller,
      kt = 1, control_mode = ''speed''\<rparr>"
  using set_control_mode_invalid[of "''voltage''"] by simp

section \<open>Properties of update\_control\_parameters\<close>

lemma update_plain_fields_controllers:
  "pid_controller (update_plain_fields kw s) = pid_controller s \<and>
   sim_current_controller (update_plain_fields kw s) = sim_current_controller s \<and>
   cascaded_controller (update_plain_fields kw s) = cascaded_controller s"
  by (simp add: update_plain_fields_def)

lemma update_current_gains_plain:
  "target_speed_rpm (update_current_gains kw s) = target_speed_rpm s \<and>
   target_current_a (update_current_gains kw s) = target_current_a s \<and>
   target_torque_nm (update_current_gains kw s) = target_torque_nm s \<and>
   load_torque_percent (update_current_gains kw s) = load_torque_percent s \<and>
   sim_control_mode (update_current_gains kw s) = sim_control_mode s \<and>
   use_cascaded_control (update_current_gains kw s) = use_cascaded_control s \<and>
   manual_voltage (update_current_gains kw s) = manual_voltage s \<and>
   manual_duty_cycle (update_current_gains kw s) = manual_duty_cycle s"
proof (cases "kw_current_controller_params kw")
  case None
  then show ?thesis by (simp add: update_current_gains_def)
next
  case (Some gains)
  show ?thesis
  proof (cases "sim_current_controller s")
    case None
    then show ?thesis using Some by (simp add: update_current_gains_def)
  next
    case (Some cc)
    show ?thesis
      using Some \<open>kw_current_controller_params kw = Some gains\<close>
      by (cases "cascaded_controller s") (simp_all add: update_current_gains_def Let_def)
  qed
qed

lemma update_control_parameters_plain:
  "target_speed_rpm (snd (update_control_parameters kw s)) =
     assign (kw_target_speed_rpm kw) (target_speed_rpm s) \<and>
   target_current_a (snd (update_control_parameters kw s)) =
     assign (kw_target_current_a kw) (target_current_a s) \<and>
   target_torque_nm (snd (update_control_parameters kw s)) =
     assign (kw_target_torque_nm kw) (target_torque_nm s) \<and>
   load_torque_percent (snd (update_control_parameters kw s)) =
     assign (kw_load_torque_percent kw) (load_torque_percent s) \<and>
   sim_control_mode (snd (update_control_parameters kw s)) =
     assign (kw_control_mode kw) (sim_control_mode s) \<and>
   use_cascaded_control (snd (update_control_parameters kw s)) =
     assign (kw_use_cascaded_control kw) (use_cascaded_control s) \<and>
   manual_voltage (snd (update_control_parameters kw s)) =
     assign (kw_manual_voltage kw) (manual_voltage s) \<and>
   manual_duty_cycle (snd (update_control_parameters kw s)) =
     assign (kw_manual_duty_cycle kw) (manual_duty_cycle s)"
proof -
  have "snd (update_control_parameters kw s) = update_plain_fields kw s \<or>
      snd (update_control_parameters kw s) = update_current_gains kw (update_plain_fields kw s)"
    by (simp add: update_control_parameters_def Let_def)
  then show ?thesis
  proof
    assume "snd (update_control_parameters kw s) = update_plain_fields kw s"
    then show ?thesis by (simp add: update_plain_fields_def)
  next
    assume "snd (update_control_parameters kw s) =
      update_current_gains kw (update_plain_fields kw s)"
    then show ?thesis
      by (simp add: update_current_gains_plain) (simp add: update_plain_fields_def)
  qed
qed

text \<open>
  The part of claim C8 that the code keeps: each plain field takes the value passed for
  it, and a field that is not passed keeps its value (\<open>assign None old = old\<close>), also when
  the call ends in an exception.
\<close>

lemma assign_absent: "assign None old = old"
  by (simp add: assign_def)

text \<open>
  Also kept: after \<open>current_controller_params\<close> alone, the gains of the standalone current
  controller and of the current loop of the cascaded controller are the same.
\<close>

lemma current_gains_agree:
  assumes "kw_pid_params kw = None"
    and "kw_current_controller_params kw = Some gains"
    and "sim_current_controller s = Some cc" and "cascaded_controller s = Some casc"
    and "update_control_parameters kw s = (r, s')"
  shows "r = Inr () \<and>
    (\<exists>cc' casc'. sim_current_controller s' = Some cc' \<and> cascaded_controller s' = Some casc' \<and>
       cc_kp (current_controller casc') = cc_kp cc' \<and>
       cc_ki (current_controller casc') = cc_ki cc' \<and>
       cc_kp cc' = dict_get gains ''kp'' (cc_kp cc) \<and>
       cc_ki cc' = dict_get gains ''ki'' (cc_ki cc))"
  using assms
  by (auto simp: update_control_parameters_def update_current_gains_def Let_def
      update_plain_fields_controllers set_gains_def dict_get_def split: option.splits)

text \<open>
  Claim C8, where the code fails it. Whenever \<open>pid_params\<close> is passed to a simulator whose
  PID controller has been built, \<open>update_control_parameters\<close> raises AttributeError (the
  class has no \<open>set_parameters\<close>): neither the standalone PID controller nor the speed loop
  of the cascaded controller is updated, and \<open>current_controller_params\<close> passed in the
  same call is not applied either.
\<close>

theorem pid_params_update_raises:
  assumes "kw_pid_params kw = Some gains" and "pid_controller s = Some pid"
  shows "fst (update_control_parameters kw s) = Inl (AttributeError ''set_parameters'') \<and>
         pid_controller (snd (update_control_parameters kw s)) = Some pid \<and>
         cascaded_controller (snd (update_control_parameters kw s)) = cascaded_controller s \<and>
         sim_current_controller (snd (update_control_parameters kw s)) = sim_current_controller s"
  using assms
  by (simp add: update_control_parameters_def Let_def update_plain_fields_controllers)

text \<open>The failing input: \<open>update_control_parameters(pid_params={'kp': 2.0})\<close> after \<open>initialize\<close>.\<close>

theorem pid_params_update_raises_witness:
  "kw_pid_params (no_kwargs\<lparr>kw_pid_params := Some [(''kp'', 2)]\<rparr>) = Some [(''kp'', 2)] \<and>
   pid_controller initialized_simulator = Some settings_pid \<and>
   update_control_parameters (no_kwargs\<lparr>kw_pid_params := Some [(''kp'', 2)]\<rparr>)
     initialized_simulator = (Inl (AttributeError ''set_parameters''), initialized_simulator) \<and>
   kp settings_pid = 1"
proof -
  have h: "kw_pid_params (no_kwargs\<lparr>kw_pid_params := Some [(''kp'', 2)]\<rparr>) = Some [(''kp'', 2)]"
    "pid_controller initialized_simulator = Some settings_pid"
    by (simp_all add: initialized_simulator_def)
  have "snd (update_control_parameters (no_kwargs\<lparr>kw_pid_params := Some [(''kp'', 2)]\<rparr>)
      initialized_simulator) = initialized_simulator"
    by (simp add: update_control_parameters_def update_plain_fields_def no_kwargs_def assign_def
        initialized_simulator_def)
  then show ?thesis
    using h pid_params_update_raises[OF h]
    by (simp add: prod_eq_iff settings_pid_def)
qed

section \<open>Properties of the motor model\<close>

lemma py_mod_range:
  assumes "0 < y"
  shows "0 \<le> py_mod x y \<and> py_mod x y < y"
  using floor_divide_lower[OF assms, of x] floor_divide_upper[OF assms, of x]
  by (simp add: py_mod_def algebra_simps)

lemma and_then_Inr: "and_then (Inr v) f = f v"
  by (simp add: and_then_def)

lemma py_div_Inr: "b \<noteq> 0 \<Longrightarrow> py_div a b = Inr (a / b)"
  by (simp add: py_div_def)

lemma modulate_returns:
  assumes "switching_period i \<noteq> 0"
  shows "\<exists>v i'. modulate d c i = Inr (v, i') \<and> switching_period i' = switching_period i \<and>
           dc_bus_voltage i' = dc_bus_voltage i"
  using assms by (simp add: modulate_def Let_def py_div_Inr and_then_Inr)

lemma get_efficiency_returns:
  assumes "dc_bus_voltage i \<noteq> 0"
  shows "\<exists>e. get_efficiency i = Inr e"
  using assms by (simp add: get_efficiency_def Let_def py_div_Inr and_then_Inr)

lemma apply_control_input_returns:
  assumes "inverter_ok (pwm_inverter m)"
  shows "\<exists>m'. apply_control_input u m = Inr m' \<and> params m' = params m \<and>
           thermal_resistance m' = thermal_resistance m \<and> inverter_ok (pwm_inverter m') \<and>
           current m' = current m \<and> speed m' = speed m \<and> temperature m' = temperature m \<and>
           position m' = position m"
proof (cases "if use_pwm m then pwm_inverter m else None")
  case None
  then show ?thesis using assms by (simp add: apply_control_input_def)
next
  case (Some i)
  then have i: "pwm_inverter m = Some i"
    by (simp split: if_splits)
  then have sp: "switching_period i \<noteq> 0" and dc: "dc_bus_voltage i \<noteq> 0"
    using assms by (simp_all add: inverter_ok_def)
  obtain v i' where mo: "modulate (np_clip u 0 1) (current m) i = Inr (v, i')"
    and fr: "switching_period i' = switching_period i" "dc_bus_voltage i' = dc_bus_voltage i"
    using modulate_returns[OF sp] by blast
  show ?thesis
    using Some mo fr sp dc
    by (simp add: apply_control_input_def Let_def and_then_Inr inverter_ok_def)
qed

lemma update_electrical_dynamics_returns:
  assumes "p_inductance (params m) \<noteq> 0" and "dt + 1/1000 \<noteq> 0"
  shows "\<exists>m'. update_electrical_dynamics v e dt m = Inr m' \<and> params m' = params m \<and>
           thermal_resistance m' = thermal_resistance m \<and> pwm_inverter m' = pwm_inverter m \<and>
           use_pwm m' = use_pwm m \<and> voltage m' = voltage m \<and>
           speed m' = speed m \<and> temperature m' = temperature m \<and> position m' = position m \<and>
           current m' =
             np_clip (current m + (v - e - get_hot_resistance m * current m) /
                 p_inductance (params m) * dt)
               (- (p_rated_current (params m) * (15/10))) (p_rated_current (params m) * (15/10))"
  using assms
  by (simp add: update_electrical_dynamics_def Let_def py_div_Inr and_then_Inr)

lemma update_torque_frame:
  "params (update_torque m) = params m \<and>
   thermal_resistance (update_torque m) = thermal_resistance m \<and>
   pwm_inverter (update_torque m) = pwm_inverter m \<and> use_pwm (update_torque m) = use_pwm m \<and>
   voltage (update_torque m) = voltage m \<and>
   current (update_torque m) = current m \<and> speed (update_torque m) = speed m \<and>
   temperature (update_torque m) = temperature m \<and> position (update_torque m) = position m \<and>
   torque (update_torque m) =
     np_clip (p_kt (params m) * current m) (- p_max_torque (params m)) (p_max_torque (params m))"
  by (simp add: update_torque_def Let_def)

lemma update_mechanical_dynamics_returns:
  assumes "p_inertia (params m) \<noteq> 0"
  shows "\<exists>m'. update_mechanical_dynamics l dt m = Inr m' \<and> params m' = params m \<and>
           thermal_resistance m' = thermal_resistance m \<and> pwm_inverter m' = pwm_inverter m \<and>
           use_pwm m' = use_pwm m \<and> voltage m' = voltage m \<and>
           current m' = current m \<and> torque m' = torque m \<and> temperature m' = temperature m \<and>
           0 \<le> position m' \<and> position m' < 2 * pi"
  using assms py_mod_range[of "2 * pi"]
  by (simp add: update_mechanical_dynamics_def Let_def py_div_Inr and_then_Inr)

lemma update_thermal_dynamics_returns:
  assumes "p_max_speed (params m) \<noteq> 0" and "thermal_resistance m \<noteq> 0"
  shows "\<exists>m'. update_thermal_dynamics dt m = Inr m' \<and> params m' = params m \<and>
           thermal_resistance m' = thermal_resistance m \<and> pwm_inverter m' = pwm_inverter m \<and>
           use_pwm m' = use_pwm m \<and> voltage m' = voltage m \<and>
           current m' = current m \<and> torque m' = torque m \<and> position m' = position m \<and>
           25 \<le> temperature m' \<and> temperature m' \<le> 150"
  using assms
  by (simp add: update_thermal_dynamics_def Let_def py_div_Inr and_then_Inr)

lemma calculate_state_outputs_returns:
  assumes "inverter_ok (pwm_inverter m)"
  shows "\<exists>outs. calculate_state_outputs m = Inr outs"
proof (cases "if use_pwm m then pwm_inverter m else None")
  case None
  then show ?thesis by (simp add: calculate_state_outputs_def and_then_Inr)
next
  case (Some i)
  then have "pwm_inverter m = Some i" by (simp split: if_splits)
  then have "dc_bus_voltage i \<noteq> 0" using assms by (simp add: inverter_ok_def)
  then obtain e where "get_efficiency i = Inr e"
    using get_efficiency_returns by blast
  then show ?thesis using Some by (simp add: calculate_state_outputs_def and_then_Inr)
qed

text \<open>One call of \<open>step\<close>, for every time step but \<open>-0.001\<close> (where the current filter divides by zero).\<close>

lemma BLDCMotor_step_returns:
  assumes ok: "motor_ok m" and dt: "dt + 1/1000 \<noteq> 0"
  shows "\<exists>outs m' m1. BLDCMotor_step u l dt m = Inr (outs, m') \<and> motor_ok m' \<and>
           state_invariant m' \<and>
           apply_control_input u m = Inr m1 \<and> voltage m' = voltage m1 \<and>
           current m' =
             np_clip (current m + (voltage m' - p_ke (params m) * speed m -
                 get_hot_resistance m * current m) / p_inductance (params m) * dt)
               (- (p_rated_current (params m) * (15/10))) (p_rated_current (params m) * (15/10))"
proof -
  from ok have inv: "inverter_ok (pwm_inverter m)" by (simp add: motor_ok_def)
  obtain m1 where s1: "apply_control_input u m = Inr m1" and f1: "params m1 = params m"
    "thermal_resistance m1 = thermal_resistance m" "inverter_ok (pwm_inverter m1)"
    "current m1 = current m" "speed m1 = speed m" "temperature m1 = temperature m"
    using apply_control_input_returns[OF inv, of u] by blast
  have "p_inductance (params m1) \<noteq> 0" using ok f1 by (simp add: motor_ok_def)
  from update_electrical_dynamics_returns[OF this dt, of "voltage m1" "calculate_back_emf m1"]
  obtain m2 where s2: "update_electrical_dynamics (voltage m1) (calculate_back_emf m1) dt m1 = Inr m2"
    and f2: "params m2 = params m1" "thermal_resistance m2 = thermal_resistance m1"
      "pwm_inverter m2 = pwm_inverter m1" "voltage m2 = voltage m1"
    and c2: "current m2 =
             np_clip (current m1 + (voltage m1 - calculate_back_emf m1 -
                 get_hot_resistance m1 * current m1) / p_inductance (params m1) * dt)
               (- (p_rated_current (params m1) * (15/10))) (p_rated_current (params m1) * (15/10))"
    by blast
  define m3 where "m3 = update_torque m2"
  note f3 = update_torque_frame[of m2, folded m3_def]
  have "p_inertia (params m3) \<noteq> 0" using ok f1 f2 f3 by (simp add: motor_ok_def)
  from update_mechanical_dynamics_returns[OF this, of l dt]
  obtain m4 where s4: "update_mechanical_dynamics l dt m3 = Inr m4"
    and f4: "params m4 = params m3" "thermal_resistance m4 = thermal_resistance m3"
      "pwm_inverter m4 = pwm_inverter m3" "voltage m4 = voltage m3"
      "current m4 = current m3" "torque m4 = torque m3"
    and p4: "0 \<le> position m4" "position m4 < 2 * pi"
    by blast
  have "p_max_speed (params m4) \<noteq> 0" "thermal_resistance m4 \<noteq> 0"
    using ok f1 f2 f3 f4 by (simp_all add: motor_ok_def)
  from update_thermal_dynamics_returns[OF this, of dt]
  obtain m5 where s5: "update_thermal_dynamics dt m4 = Inr m5"
    and f5: "params m5 = params m4" "thermal_resistance m5 = thermal_resistance m4"
      "pwm_inverter m5 = pwm_inverter m4" "voltage m5 = voltage m4"
      "current m5 = current m4" "torque m5 = torque m4" "position m5 = position m4"
    and t5: "25 \<le> temperature m5" "temperature m5 \<le> 150"
    by blast
  have par: "params m5 = params m" "thermal_resistance m5 = thermal_resistance m"
    "pwm_inverter m5 = pwm_inverter m1"
    using f1 f2 f3 f4 f5 by simp_all
  then have ok5: "motor_ok m5"
    using ok f1(3) by (simp add: motor_ok_def)
  then have "inverter_ok (pwm_inverter m5)" by (simp add: motor_ok_def)
  then obtain outs where s6: "calculate_state_outputs m5 = Inr outs"
    using calculate_state_outputs_returns by blast
  have step: "BLDCMotor_step u l dt m = Inr (outs, m5)"
    by (simp add: BLDCMotor_step_def s1 and_then_Inr Let_def s2 m3_def[symmetric] s4 s5 s6)
  have cur: "current m5 = current m2" "torque m5 = torque m3"
    using f3 f4 f5 by simp_all
  have r: "0 \<le> p_rated_current (params m)" "0 \<le> p_max_torque (params m)"
    using ok by (simp_all add: motor_ok_def)
  have "\<bar>current m2\<bar> \<le> p_rated_current (params m1) * (15/10)"
    unfolding c2 by (rule np_clip_abs) (use r(1) f1(1) in simp)
  then have "\<bar>current m5\<bar> \<le> 15/10 * p_rated_current (params m)"
    by (simp add: cur f1)
  moreover have "\<bar>torque m5\<bar> \<le> p_max_torque (params m)"
    using np_clip_abs[OF r(2)] f3 by (simp add: cur f2 f1)
  ultimately have "state_invariant m5"
    using t5 p4 f5 by (simp add: state_invariant_def par)
  moreover have "current m5 =
             np_clip (current m + (voltage m5 - p_ke (params m) * speed m -
                 get_hot_resistance m * current m) / p_inductance (params m) * dt)
               (- (p_rated_current (params m) * (15/10))) (p_rated_current (params m) * (15/10))"
    using f1 f2 f3 f4 f5
    by (simp add: cur c2 calculate_back_emf_def get_hot_resistance_def)
  moreover have "voltage m5 = voltage m1"
    using f2 f3 f4 f5 by simp
  ultimately show ?thesis
    using step ok5 s1 by blast
qed


lemma BLDCMotor_steps_snoc:
  "BLDCMotor_steps (xs @ [(u, l, dt)]) a =
     and_then (BLDCMotor_steps xs a) (\<lambda>b.
       and_then (BLDCMotor_step u l dt b) (\<lambda>(outs, b'). Inr b'))"
proof (induction xs arbitrary: a)
  case Nil
  show ?case
    by (cases "BLDCMotor_step u l dt a") (auto simp: and_then_def)
next
  case (Cons x xs)
  obtain u' l' dt' where x: "x = (u', l', dt')" by (cases x)
  show ?case
    by (cases "BLDCMotor_step u' l' dt' a") (auto simp: x and_then_def Cons)
qed

lemma BLDCMotor_steps_invariant:
  assumes "motor_ok m" and "\<forall>c \<in> set calls. 0 < snd (snd c)"
  shows "\<exists>m'. BLDCMotor_steps calls m = Inr m' \<and> motor_ok m' \<and>
           (calls \<noteq> [] \<longrightarrow> state_invariant m')"
  using assms
proof (induction calls arbitrary: m rule: rev_induct)
  case Nil
  then show ?case by simp
next
  case (snoc c calls)
  obtain u l dt where c: "c = (u, l, dt)" by (cases c)
  have dt: "dt + 1/1000 \<noteq> 0" using snoc.prems(2) c by simp
  obtain m1 where m1: "BLDCMotor_steps calls m = Inr m1" "motor_ok m1"
    using snoc.IH[OF snoc.prems(1)] snoc.prems(2) by auto
  obtain outs m2 where m2: "BLDCMotor_step u l dt m1 = Inr (outs, m2)" "motor_ok m2"
    "state_invariant m2"
    using BLDCMotor_step_returns[OF m1(2) dt, of u l] by blast
  show ?case
    using m1 m2 by (simp add: c BLDCMotor_steps_snoc and_then_Inr)
qed

text \<open>
  Claim C2. Let the motor parameters be well formed (\<open>motor_ok\<close>: no zero divisor, a
  rated current and a maximum torque that are not negative). Every non-empty sequence of
  \<open>step\<close> calls with any control inputs, any load torques and time steps \<open>dt > 0\<close> runs
  without an exception, and afterwards \<open>|current| \<le> 1.5 * rated_current\<close>,
  \<open>|torque| \<le> max_torque\<close>, \<open>25 \<le> temperature \<le> 150\<close> and \<open>0 \<le> position < 2 * pi\<close>. Every
  prefix of a sequence is a sequence, so the invariant holds after each step.
\<close>

theorem motor_state_invariant:
  assumes "motor_ok m" and "calls \<noteq> []" and "\<forall>(u, l, dt) \<in> set calls. 0 < dt"
  shows "\<exists>m'. BLDCMotor_steps calls m = Inr m' \<and>
           \<bar>current m'\<bar> \<le> 15/10 * p_rated_current (params m') \<and>
           \<bar>torque m'\<bar> \<le> p_max_torque (params m') \<and>
           25 \<le> temperature m' \<and> temperature m' \<le> 150 \<and>
           0 \<le> position m' \<and> position m' < 2 * pi"
proof -
  have "\<forall>c \<in> set calls. 0 < snd (snd c)"
    using assms(3) by auto
  from BLDCMotor_steps_invariant[OF assms(1) this] assms(2)
  show ?thesis by (auto simp: state_invariant_def)
qed

text \<open>Two steps of the motor of the simulator (PWM mode) at 50 percent duty and \<open>dt = 0.001\<close>.\<close>

theorem motor_state_invariant_witness:
  "motor_ok pwm_motor \<and> [(1/2, 0, 1/1000), (1/2, 1, 1/1000)] \<noteq> ([] :: (real \<times> real \<times> real) list) \<and>
   list_all (\<lambda>(u, l, dt). 0 < dt) [(1/2, 0, 1/1000), (1/2, 1, 1/1000 :: real)] \<and>
   (\<exists>m'. BLDCMotor_steps [(1/2, 0, 1/1000), (1/2, 1, 1/1000)] pwm_motor = Inr m' \<and>
      \<bar>current m'\<bar> \<le> 15/10 * p_rated_current (params m') \<and>
      \<bar>torque m'\<bar> \<le> p_max_torque (params m') \<and>
      25 \<le> temperature m' \<and> temperature m' \<le> 150 \<and>
      0 \<le> position m' \<and> position m' < 2 * pi)"
proof -
  have ok: "motor_ok pwm_motor"
    by (simp add: motor_ok_def pwm_motor_def direct_motor_def default_params_def
        inverter_ok_def default_inverter_def)
  have ne: "[(1/2, 0, 1/1000), (1/2, 1, 1/1000)] \<noteq> ([] :: (real \<times> real \<times> real) list)"
    by simp
  have pos: "\<forall>(u, l, dt) \<in> set [(1/2, 0, 1/1000), (1/2, 1, 1/1000 :: real)]. 0 < dt"
    by simp
  have la: "list_all (\<lambda>(u, l, dt). 0 < dt) [(1/2, 0, 1/1000), (1/2, 1, 1/1000 :: real)]"
    by simp
  from motor_state_invariant[OF ok ne pos] ok ne la show ?thesis
    by blast
qed
lemma py_mod_small: "0 \<le> x \<Longrightarrow> x < y \<Longrightarrow> py_mod x y = x"
proof -
  assume "0 \<le> x" "x < y"
  then have "\<lfloor>x / y\<rfloor> = 0"
    by (simp add: floor_eq_iff)
  then show ?thesis by (simp add: py_mod_def)
qed

text \<open>The closed form of \<open>_update_mechanical_dynamics\<close>.\<close>

lemma update_mechanical_dynamics_closed:
  assumes "p_inertia (params m) \<noteq> 0"
  shows "update_mechanical_dynamics load_torque dt m =
     Inr (m\<lparr>speed := np_clip (speed m +
                     (torque m - load_torque - p_friction (params m) * speed m) /
                       p_inertia (params m) * dt)
                   (- (p_max_speed (params m) * pi / 30)) (p_max_speed (params m) * pi / 30),
            position := py_mod (position m + (speed m +
                     (torque m - load_torque - p_friction (params m) * speed m) /
                       p_inertia (params m) * dt) * dt) (2 * pi)\<rparr>)"
  using assms
  by (simp add: update_mechanical_dynamics_def Let_def py_div_Inr and_then_Inr)

text \<open>
  Claim C3, as amended. In \<open>_update_mechanical_dynamics\<close> the speed is incremented by
  \<open>(net_torque / inertia) * dt\<close>, the position is advanced by that new speed times \<open>dt\<close>
  before the speed is limited, then the speed is limited to \<open>\<plusminus>max_speed_rad_s\<close> and the
  position is taken modulo \<open>2 * pi\<close>: the position update uses the speed before the limit.
\<close>

theorem mechanical_update_order:
  fixes m :: BLDCMotor and load_torque dt :: real
  defines "new_speed \<equiv> speed m +
     (torque m - load_torque - p_friction (params m) * speed m) / p_inertia (params m) * dt"
  assumes "p_inertia (params m) \<noteq> 0"
  shows "update_mechanical_dynamics load_torque dt m =
     Inr (m\<lparr>speed := np_clip new_speed (- (p_max_speed (params m) * pi / 30))
                   (p_max_speed (params m) * pi / 30),
            position := py_mod (position m + new_speed * dt) (2 * pi)\<rparr>)"
  unfolding new_speed_def by (rule update_mechanical_dynamics_closed[OF assms(2)])

lemma fast_motor_facts:
  "p_inertia (params fast_motor) \<noteq> 0"
  "speed fast_motor + (torque fast_motor - 0 - p_friction (params fast_motor) *
      speed fast_motor) / p_inertia (params fast_motor) * (1/1000) = 4997/1000"
  "p_max_speed (params fast_motor) * pi / 30 = pi"
  "position fast_motor = 0"
  by (simp_all add: fast_motor_def default_params_def direct_motor_def)

lemma clip_above_pi: "np_clip (4997/1000) (- pi) pi = pi"
  using pi_less_4 pi_ge_two by (simp add: np_clip_def)

lemma wrap_small: "py_mod (0 + 4997/1000 * (1/1000)) (2 * pi) = 4997/1000000"
  using py_mod_small[of "4997/1000000" "2 * pi"] pi_ge_two by simp

theorem mechanical_update_order_witness:
  "p_inertia (params fast_motor) \<noteq> 0 \<and>
   update_mechanical_dynamics 0 (1/1000) fast_motor =
     Inr (fast_motor\<lparr>speed := pi, position := 4997/1000000\<rparr>)"
proof -
  have "update_mechanical_dynamics 0 (1/1000) fast_motor =
     Inr (fast_motor\<lparr>speed := np_clip (4997/1000) (- pi) pi,
            position := py_mod (0 + 4997/1000 * (1/1000)) (2 * pi)\<rparr>)"
    using mechanical_update_order[OF fast_motor_facts(1), of 0 "1/1000"]
    by (simp only: fast_motor_facts)
  then show ?thesis
    using fast_motor_facts(1) by (simp only: clip_above_pi wrap_small simp_thms)
qed

text \<open>
  Claim C3 as stated fails when the limit applies. \<open>fast_motor\<close> runs at 3 rad/s with a
  limit of \<open>pi\<close> rad/s; one step of 1 ms takes the speed to 4.997 rad/s, which is limited to
  \<open>pi\<close>. The position becomes \<open>4.997 * 0.001\<close>, not \<open>pi * 0.001\<close> as the limited speed
  would give.
\<close>

theorem mechanical_update_order_counterexample:
  "\<exists>m'. update_mechanical_dynamics 0 (1/1000) fast_motor = Inr m' \<and>
      speed m' = pi \<and> position m' = 4997/1000000 \<and>
      position m' \<noteq> py_mod (position fast_motor + speed m' * (1/1000)) (2 * pi)"
proof -
  have "update_mechanical_dynamics 0 (1/1000) fast_motor =
     Inr (fast_motor\<lparr>speed := np_clip (4997/1000) (- pi) pi,
            position := py_mod (0 + 4997/1000 * (1/1000)) (2 * pi)\<rparr>)"
    using update_mechanical_dynamics_closed[OF fast_motor_facts(1), of 0 "1/1000"]
    by (simp only: fast_motor_facts)
  then have upd: "update_mechanical_dynamics 0 (1/1000) fast_motor =
     Inr (fast_motor\<lparr>speed := pi, position := 4997/1000000\<rparr>)"
    by (simp only: clip_above_pi wrap_small)
  have "py_mod (pi * (1/1000)) (2 * pi) = pi * (1/1000)"
    by (rule py_mod_small) (use pi_gt_zero in simp_all)
  moreover have "pi * (1/1000) \<noteq> 4997/1000000"
    using pi_less_4 by simp
  ultimately have "(4997/1000000 :: real) \<noteq> py_mod (position fast_motor + pi * (1/1000)) (2 * pi)"
    by (simp add: fast_motor_facts(4))
  then show ?thesis
    unfolding upd by simp
qed





text \<open>At \<open>dt = -0.001\<close> the call does raise, from the division in the current filter.\<close>

lemma step_filter_division:
  assumes "motor_ok m"
  shows "BLDCMotor_step u l (- 1/1000) m = Inl ZeroDivisionError"
proof -
  from assms have "inverter_ok (pwm_inverter m)" by (simp add: motor_ok_def)
  then obtain m1 where s1: "apply_control_input u m = Inr m1" and f1: "params m1 = params m"
    using apply_control_input_returns[of m u] by blast
  have "p_inductance (params m1) \<noteq> 0" using assms f1 by (simp add: motor_ok_def)
  then have "update_electrical_dynamics v e (- 1/1000) m1 = Inl ZeroDivisionError" for v e
    by (simp add: update_electrical_dynamics_def Let_def py_div_Inr and_then_Inr)
      (simp add: py_div_def and_then_def)
  then show ?thesis
    by (simp add: BLDCMotor_step_def s1 and_then_Inr Let_def) (simp add: and_then_def)
qed

end
